theory Spec2Isabelle
  imports Main
begin

section \<open>Python values and exceptions\<close>

text \<open>
  The owning user of a client is an instance of the configured user model
  (\<^verbatim>\<open>AUTH_USER_MODEL\<close>, Django's \<^verbatim>\<open>auth.User\<close> by default). The only attribute
  \<^verbatim>\<open>provider/oauth2/models.py\<close> reads from it is \<^verbatim>\<open>username\<close>.
\<close>

record User =
  username :: string

text \<open>
  The values that travel through \<^verbatim>\<open>Client.serialize\<close> and \<^verbatim>\<open>Client.deserialize\<close>:
  \<^verbatim>\<open>None\<close>, booleans, integers, strings, dictionaries with string keys (an
  association list, the first binding of a key is the live one) and model instances.
\<close>

datatype pyval =
    PNone
  | PBool bool
  | PInt int
  | PStr string
  | PDict "(string \<times> pyval) list"
  | PInstance User

text \<open>The exceptions the modelled code can raise.\<close>

datatype error =
    ValueError
  | TypeError
  | AttributeError
  | IndexError
  | RelatedObjectDoesNotExist

text \<open>Python truth value testing (\<^verbatim>\<open>if val\<close>, \<^verbatim>\<open>not data\<close>, \<^verbatim>\<open>a and b\<close>).\<close>

fun truthy :: "pyval \<Rightarrow> bool" where
  "truthy PNone = False"
| "truthy (PBool b) = b"
| "truthy (PInt n) = (n \<noteq> 0)"
| "truthy (PStr s) = (s \<noteq> [])"
| "truthy (PDict kvs) = (kvs \<noteq> [])"
| "truthy (PInstance u) = True"

text \<open>
  \<^verbatim>\<open>v == k\<close> for an integer literal \<^verbatim>\<open>k\<close>: integers compare by value, \<^verbatim>\<open>True\<close> and
  \<^verbatim>\<open>False\<close> are the integers 1 and 0, every other kind of value is unequal.
\<close>

fun py_eq_int :: "pyval \<Rightarrow> int \<Rightarrow> bool" where
  "py_eq_int (PInt n) k = (n = k)"
| "py_eq_int (PBool b) k = ((if b then 1 else 0) = k)"
| "py_eq_int _ k = False"

text \<open>\<^verbatim>\<open>d.get(key, None)\<close> on a dictionary.\<close>

definition dict_get :: "(string \<times> pyval) list \<Rightarrow> string \<Rightarrow> pyval" where
  "dict_get kvs k = (case map_of kvs k of None \<Rightarrow> PNone | Some v \<Rightarrow> v)"


section \<open>Client\<close>

text \<open>
  \<^verbatim>\<open>class Client(models.Model)\<close>. \<^verbatim>\<open>id_pk\<close> is the primary key \<^verbatim>\<open>id\<close> that Django
  adds to every model. \<^verbatim>\<open>user\<close> is a nullable foreign key; the other attributes hold whatever the
  constructor was given, so they are Python values.
\<close>

record Client =
  id_pk :: pyval
  user :: "User option"
  name :: pyval
  url :: pyval
  redirect_uri :: pyval
  client_id :: pyval
  client_secret :: pyval
  client_type :: pyval

text \<open>
  \<^verbatim>\<open>get_default_token_expiry\<close>. \<^verbatim>\<open>get_token_expiry\<close> lives in \<^verbatim>\<open>provider/utils.py\<close>
  and is a parameter here: the function as it would answer at the moment of the call.
\<close>

definition get_default_token_expiry :: "(bool \<Rightarrow> 'ts) \<Rightarrow> Client \<Rightarrow> 'ts" where
  "get_default_token_expiry get_token_expiry self =
     (let public = py_eq_int (client_type self) 1
      in get_token_expiry public)"

text \<open>
  \<^verbatim>\<open>sandbox_client\<close> is \<^verbatim>\<open>self.user and self.user.username == 'oauth2-sandbox-user'\<close>:
  Python's \<^verbatim>\<open>and\<close> returns its left operand when that is falsy (here \<^verbatim>\<open>None\<close>; a model
  instance is always truthy), otherwise its right operand.
\<close>

definition sandbox_client :: "Client \<Rightarrow> pyval" where
  "sandbox_client self =
     (case user self of
        None \<Rightarrow> PNone
      | Some u \<Rightarrow> PBool (username u = ''oauth2-sandbox-user''))"

text \<open>\<^verbatim>\<open>is_public\<close> is \<^verbatim>\<open>self.user != None\<close>.\<close>

definition is_public :: "Client \<Rightarrow> bool" where
  "is_public self = (user self \<noteq> None)"

text \<open>
  \<^verbatim>\<open>serialize\<close>. \<^verbatim>\<open>serialize_instance\<close> (from \<^verbatim>\<open>provider/utils.py\<close>) is a parameter; it
  may raise. The dictionary is built in the order of the keyword arguments.
\<close>

definition serialize :: "(User \<Rightarrow> error + pyval) \<Rightarrow> Client \<Rightarrow> error + (string \<times> pyval) list" where
  "serialize serialize_instance self =
     (case (case user self of
              Some u \<Rightarrow> serialize_instance u
            | None \<Rightarrow> Inr (PStr '''')) of
        Inl e \<Rightarrow> Inl e
      | Inr su \<Rightarrow>
          Inr [(''user'', su),
               (''name'', name self),
               (''url'', url self),
               (''redirect_uri'', redirect_uri self),
               (''client_id'', client_id self),
               (''client_secret'', client_secret self),
               (''client_type'', client_type self)])"

text \<open>
  \<^verbatim>\<open>cls._meta.fields\<close> of \<^verbatim>\<open>Client\<close>: the field names in declaration order, each with
  whether \<^verbatim>\<open>field.remote_field\<close> is set (only the foreign key \<^verbatim>\<open>user\<close>).
\<close>

definition Client_fields :: "(string \<times> bool) list" where
  "Client_fields =
     [(''id'', False), (''user'', True), (''name'', False), (''url'', False),
      (''redirect_uri'', False), (''client_id'', False), (''client_secret'', False),
      (''client_type'', False)]"

text \<open>
  The loop of \<^verbatim>\<open>deserialize\<close> that fills \<^verbatim>\<open>kwargs\<close>. \<^verbatim>\<open>deserialize_instance\<close> (from
  \<^verbatim>\<open>provider/utils.py\<close>) is a parameter, already applied to the related model; it may
  raise.
\<close>

fun extract_kwargs ::
  "(pyval \<Rightarrow> error + User) \<Rightarrow> (string \<times> pyval) list \<Rightarrow> (string \<times> bool) list
     \<Rightarrow> (string \<times> pyval) list \<Rightarrow> error + (string \<times> pyval) list" where
  "extract_kwargs deserialize_instance data [] kwargs = Inr kwargs"
| "extract_kwargs deserialize_instance data ((fname, remote) # rest) kwargs =
     (let val = dict_get data fname
      in if truthy val \<and> remote
         then (case deserialize_instance val of
                 Inl e \<Rightarrow> Inl e
               | Inr inst \<Rightarrow>
                   extract_kwargs deserialize_instance data rest
                     (kwargs @ [(fname, PInstance inst)]))
         else extract_kwargs deserialize_instance data rest (kwargs @ [(fname, val)]))"

text \<open>
  Assigning to the foreign key attribute: Django's related-object descriptor accepts
  \<^verbatim>\<open>None\<close> or an instance of the related model and raises \<^verbatim>\<open>ValueError\<close>
  (\<^verbatim>\<open>Cannot assign ...: "Client.user" must be a "User" instance\<close>) for anything else.
\<close>

fun assign_related :: "pyval \<Rightarrow> error + User option" where
  "assign_related PNone = Inr None"
| "assign_related (PInstance u) = Inr (Some u)"
| "assign_related _ = Inl ValueError"

text \<open>
  \<^verbatim>\<open>cls(**kwargs)\<close>: \<^verbatim>\<open>Model.__init__\<close> takes each field from the keyword arguments and
  falls back to the field's default (the parameter \<^verbatim>\<open>dflt\<close>) for a name that was not
  passed. The foreign key is set through its descriptor, plain fields are stored as
  given.
\<close>

definition kwarg :: "(string \<Rightarrow> pyval) \<Rightarrow> (string \<times> pyval) list \<Rightarrow> string \<Rightarrow> pyval" where
  "kwarg dflt kwargs k = (case map_of kwargs k of None \<Rightarrow> dflt k | Some v \<Rightarrow> v)"

definition Client_init :: "(string \<Rightarrow> pyval) \<Rightarrow> (string \<times> pyval) list \<Rightarrow> error + Client" where
  "Client_init dflt kwargs =
     (case assign_related (kwarg dflt kwargs ''user'') of
        Inl e \<Rightarrow> Inl e
      | Inr u \<Rightarrow>
          Inr \<lparr> id_pk = kwarg dflt kwargs ''id'',
                user = u,
                name = kwarg dflt kwargs ''name'',
                url = kwarg dflt kwargs ''url'',
                redirect_uri = kwarg dflt kwargs ''redirect_uri'',
                client_id = kwarg dflt kwargs ''client_id'',
                client_secret = kwarg dflt kwargs ''client_secret'',
                client_type = kwarg dflt kwargs ''client_type'' \<rparr>)"

text \<open>
  \<^verbatim>\<open>deserialize\<close>. Falsy data returns \<^verbatim>\<open>None\<close>; truthy data that is not a dictionary
  has no \<^verbatim>\<open>get\<close> and raises \<^verbatim>\<open>AttributeError\<close>.
\<close>

definition deserialize ::
  "(pyval \<Rightarrow> error + User) \<Rightarrow> (string \<Rightarrow> pyval) \<Rightarrow> pyval \<Rightarrow> error + Client option" where
  "deserialize deserialize_instance dflt data =
     (if \<not> truthy data then Inr None
      else case data of
        PDict kvs \<Rightarrow>
          (case extract_kwargs deserialize_instance kvs Client_fields [] of
             Inl e \<Rightarrow> Inl e
           | Inr kwargs \<Rightarrow>
               (case Client_init dflt kwargs of
                  Inl e \<Rightarrow> Inl e
                | Inr c \<Rightarrow> Inr (Some c)))
      | _ \<Rightarrow> Inl AttributeError)"


section \<open>Timestamps\<close>

text \<open>
  A \<^verbatim>\<open>tzinfo\<close> object: \<^verbatim>\<open>timezone.utc\<close>, or some other zone object, given by its
  identity and by the UTC offset (in microseconds) that it reports for the datetime it
  is attached to.
\<close>

datatype tzinfo = UTC | Zone nat int

fun tz_offset :: "tzinfo \<Rightarrow> int" where
  "tz_offset UTC = 0"
| "tz_offset (Zone k off) = off"

text \<open>\<^verbatim>\<open>a is b\<close> on two \<^verbatim>\<open>tzinfo\<close> attributes (\<^verbatim>\<open>None\<close> is \<^verbatim>\<open>None\<close>).\<close>

fun same_tzinfo :: "tzinfo option \<Rightarrow> tzinfo option \<Rightarrow> bool" where
  "same_tzinfo None None = True"
| "same_tzinfo (Some UTC) (Some UTC) = True"
| "same_tzinfo (Some (Zone k off)) (Some (Zone k' off')) = (k = k')"
| "same_tzinfo _ _ = False"

text \<open>
  \<^verbatim>\<open>datetime.datetime\<close>: the wall-clock reading, counted in microseconds from a fixed
  origin, and the \<^verbatim>\<open>tzinfo\<close> attribute (\<^verbatim>\<open>None\<close> for a naive value).
\<close>

record datetime =
  wall :: int
  tzinfo :: "tzinfo option"

definition utcoffset :: "datetime \<Rightarrow> int option" where
  "utcoffset d = map_option tz_offset (tzinfo d)"

text \<open>\<^verbatim>\<open>timezone.is_aware\<close> and \<^verbatim>\<open>timezone.is_naive\<close> test \<^verbatim>\<open>utcoffset()\<close> against \<^verbatim>\<open>None\<close>.\<close>

definition is_aware :: "datetime \<Rightarrow> bool" where
  "is_aware d = (utcoffset d \<noteq> None)"

definition is_naive :: "datetime \<Rightarrow> bool" where
  "is_naive d = (utcoffset d = None)"

text \<open>
  \<^verbatim>\<open>timezone.make_aware(value, tz)\<close> attaches the zone to a naive value and raises
  \<^verbatim>\<open>ValueError\<close> for a value that is aware already.
\<close>

definition make_aware :: "datetime \<Rightarrow> tzinfo \<Rightarrow> error + datetime" where
  "make_aware d tz = (if is_aware d then Inl ValueError else Inr (d\<lparr>tzinfo := Some tz\<rparr>))"

text \<open>
  \<^verbatim>\<open>datetime.timedelta\<close> is kept normalised by Python: \<^verbatim>\<open>0 <= seconds < 86400\<close> and
  \<^verbatim>\<open>0 <= microseconds < 1000000\<close>, the sign is carried by \<^verbatim>\<open>days\<close>.
  \<^verbatim>\<open>timedelta_us\<close> is the constructor applied to a number of microseconds.
\<close>

record timedelta =
  days :: int
  seconds :: int
  microseconds :: int

definition timedelta_us :: "int \<Rightarrow> timedelta" where
  "timedelta_us t =
     \<lparr> days = t div 86400000000,
       seconds = (t mod 86400000000) div 1000000,
       microseconds = t mod 1000000 \<rparr>"

text \<open>The exact length of a \<^verbatim>\<open>timedelta\<close> in microseconds.\<close>

definition total_microseconds :: "timedelta \<Rightarrow> int" where
  "total_microseconds td = (days td * 86400 + seconds td) * 1000000 + microseconds td"

text \<open>
  \<^verbatim>\<open>datetime.__sub__\<close> on two datetimes: the difference of the wall-clock readings when
  both carry the same \<^verbatim>\<open>tzinfo\<close> object (or none); otherwise the offsets are taken
  into account, and mixing a naive and an aware value raises \<^verbatim>\<open>TypeError\<close>.
\<close>

definition dt_sub :: "datetime \<Rightarrow> datetime \<Rightarrow> error + timedelta" where
  "dt_sub a b =
     (let base = wall a - wall b
      in if same_tzinfo (tzinfo a) (tzinfo b) then Inr (timedelta_us base)
         else case (utcoffset a, utcoffset b) of
            (Some myoff, Some otoff) \<Rightarrow>
              (if myoff = otoff then Inr (timedelta_us base)
               else Inr (timedelta_us (base + otoff - myoff)))
          | _ \<Rightarrow> Inl TypeError)"

text \<open>
  The point in time a datetime denotes, in microseconds of UTC, a naive value being
  read as UTC. This is the normalisation the specification speaks of; the code never
  computes it.
\<close>

definition utc_instant :: "datetime \<Rightarrow> int" where
  "utc_instant d = wall d - (case tzinfo d of None \<Rightarrow> 0 | Some tz \<Rightarrow> tz_offset tz)"

text \<open>
  The same normalisation as a datetime: the specification's "normalize to UTC", that
  is \<^verbatim>\<open>astimezone(utc)\<close> with a naive value read as UTC.
\<close>

definition normalize_utc :: "datetime \<Rightarrow> datetime" where
  "normalize_utc d = \<lparr> wall = utc_instant d, tzinfo = Some UTC \<rparr>"


section \<open>Grant\<close>

text \<open>\<^verbatim>\<open>class Grant(models.Model)\<close>; a foreign key that was never assigned is \<^verbatim>\<open>None\<close>.\<close>

record Grant =
  user_g :: "User option"
  client_g :: "Client option"
  code :: string
  expires_g :: "datetime option"
  redirect_uri_g :: string
  scope_g :: int

text \<open>
  \<^verbatim>\<open>Grant(...)\<close>: a keyword that is not passed (\<^verbatim>\<open>None\<close> here) takes the field's
  default. The defaults of \<^verbatim>\<open>code\<close> and \<^verbatim>\<open>expires\<close> are the callables \<^verbatim>\<open>long_token\<close>
  and \<^verbatim>\<open>get_code_expiry\<close> of \<^verbatim>\<open>provider/utils.py\<close>; the parameters are what the two
  return when the constructor calls them. \<^verbatim>\<open>expires\<close> can also be passed as \<^verbatim>\<open>None\<close>
  explicitly, which is kept.
\<close>

definition Grant_init ::
  "string \<Rightarrow> datetime \<Rightarrow> User option \<Rightarrow> Client option \<Rightarrow> string option
     \<Rightarrow> datetime option option \<Rightarrow> string option \<Rightarrow> int option \<Rightarrow> Grant" where
  "Grant_init long_token get_code_expiry kw_user kw_client kw_code kw_expires
       kw_redirect_uri kw_scope =
     \<lparr> user_g = kw_user,
       client_g = kw_client,
       code = (case kw_code of None \<Rightarrow> long_token | Some c \<Rightarrow> c),
       expires_g = (case kw_expires of None \<Rightarrow> Some get_code_expiry | Some e \<Rightarrow> e),
       redirect_uri_g = (case kw_redirect_uri of None \<Rightarrow> [] | Some r \<Rightarrow> r),
       scope_g = (case kw_scope of None \<Rightarrow> 0 | Some s \<Rightarrow> s) \<rparr>"


section \<open>AccessToken\<close>

record AccessToken =
  user_t :: "User option"
  token :: string
  client_t :: "Client option"
  expires :: "datetime option"
  scope :: int
  logged_out :: "datetime option"
  device_id :: "string option"
  created :: "datetime option"
  modified :: "datetime option"

text \<open>
  \<^verbatim>\<open>constants.SCOPES[0][0]\<close>, evaluated when the class body runs. \<^verbatim>\<open>SCOPES\<close> comes from
  \<^verbatim>\<open>provider/constants.py\<close> and is a parameter: the sequence of (value, label) pairs.
\<close>

definition scope_default :: "(int \<times> string) list \<Rightarrow> error + int" where
  "scope_default SCOPES = (case SCOPES of [] \<Rightarrow> Inl IndexError | s # _ \<Rightarrow> Inr (fst s))"

text \<open>
  \<^verbatim>\<open>AccessToken(...)\<close>: \<^verbatim>\<open>token\<close> defaults to \<^verbatim>\<open>long_token()\<close>, \<^verbatim>\<open>scope\<close> to the class
  level default, the fields without a default start as \<^verbatim>\<open>None\<close>.
\<close>

definition AccessToken_init ::
  "(int \<times> string) list \<Rightarrow> string \<Rightarrow> User option \<Rightarrow> string option \<Rightarrow> Client option
     \<Rightarrow> datetime option \<Rightarrow> int option \<Rightarrow> error + AccessToken" where
  "AccessToken_init SCOPES long_token kw_user kw_token kw_client kw_expires kw_scope =
     (case scope_default SCOPES of
        Inl e \<Rightarrow> Inl e
      | Inr dflt \<Rightarrow>
          Inr \<lparr> user_t = kw_user,
                token = (case kw_token of None \<Rightarrow> long_token | Some t \<Rightarrow> t),
                client_t = kw_client,
                expires = kw_expires,
                scope = (case kw_scope of None \<Rightarrow> dflt | Some s \<Rightarrow> s),
                logged_out = None,
                device_id = None,
                created = None,
                modified = None \<rparr>)"

text \<open>
  \<^verbatim>\<open>save\<close>, up to the call of \<^verbatim>\<open>models.Model.save\<close>: the result is the instance that
  Django then writes. A datetime is always truthy, so \<^verbatim>\<open>not self.expires\<close> holds
  exactly for \<^verbatim>\<open>None\<close>; reading \<^verbatim>\<open>self.client\<close> on an instance without a client
  raises.
\<close>

definition save :: "(bool \<Rightarrow> datetime) \<Rightarrow> AccessToken \<Rightarrow> error + AccessToken" where
  "save get_token_expiry self =
     (case expires self of
        Some e \<Rightarrow> Inr self
      | None \<Rightarrow>
          (case client_t self of
             None \<Rightarrow> Inl RelatedObjectDoesNotExist
           | Some c \<Rightarrow>
               Inr (self\<lparr>expires := Some (get_default_token_expiry get_token_expiry c)\<rparr>)))"

text \<open>
  The \<^verbatim>\<open>if timezone:\<close> block of \<^verbatim>\<open>get_expire_delta\<close>, returning the pair
  (expiration, reference). \<^verbatim>\<open>and\<close> short-circuits, so \<^verbatim>\<open>is_naive(expiration)\<close> is
  reached only for an aware reference and \<^verbatim>\<open>is_aware(expiration)\<close> only for a naive
  one; either raises \<^verbatim>\<open>AttributeError\<close> on \<^verbatim>\<open>None\<close>.
\<close>

definition align_awareness ::
  "datetime \<Rightarrow> datetime option \<Rightarrow> error + (datetime option \<times> datetime)" where
  "align_awareness reference expiration =
     (if is_aware reference then
        (case expiration of
           None \<Rightarrow> Inl AttributeError
         | Some e \<Rightarrow>
             if is_naive e then
               (case make_aware e UTC of
                  Inl err \<Rightarrow> Inl err
                | Inr e' \<Rightarrow> Inr (Some e', reference))
             else Inr (Some e, reference))
      else
        (case expiration of
           None \<Rightarrow> Inl AttributeError
         | Some e \<Rightarrow>
             if is_naive reference \<and> is_aware e then
               (case make_aware reference UTC of
                  Inl err \<Rightarrow> Inl err
                | Inr r' \<Rightarrow> Inr (Some e, r'))
             else Inr (Some e, reference)))"

text \<open>
  \<^verbatim>\<open>get_expire_delta\<close>. \<^verbatim>\<open>timezone\<close> says whether \<^verbatim>\<open>django.utils.timezone\<close> could be
  imported, \<^verbatim>\<open>now\<close> is what \<^verbatim>\<open>provider.utils.now()\<close> returns at the call. Subtracting
  from \<^verbatim>\<open>None\<close> raises \<^verbatim>\<open>TypeError\<close>.
\<close>

definition get_expire_delta ::
  "bool \<Rightarrow> datetime \<Rightarrow> AccessToken \<Rightarrow> datetime option \<Rightarrow> error + int" where
  "get_expire_delta timezone now self reference =
     (let reference = (case reference of None \<Rightarrow> now | Some r \<Rightarrow> r);
          expiration = expires self
      in case (if timezone then align_awareness reference expiration
               else Inr (expiration, reference)) of
           Inl err \<Rightarrow> Inl err
         | Inr (expiration, reference) \<Rightarrow>
             (case expiration of
                None \<Rightarrow> Inl TypeError
              | Some e \<Rightarrow>
                  (case dt_sub e reference of
                     Inl err \<Rightarrow> Inl err
                   | Inr td \<Rightarrow> Inr (days td * 86400 + seconds td))))"


section \<open>RefreshToken\<close>

record RefreshToken =
  user_r :: "User option"
  token_r :: string
  access_token :: AccessToken
  client_r :: "Client option"
  expired :: bool


section \<open>The grant life cycle of the specification\<close>

text \<open>
  \<^verbatim>\<open>provider/oauth2/models.py\<close> declares the entities only. The operations that issue a
  grant and exchange it (the views and forms of \<^verbatim>\<open>provider\<close>), the expiry policy
  (\<^verbatim>\<open>provider/utils.py\<close>) and the repository are not part of the sources at hand; the
  definitions of this section follow sections 4.2, 4.4, 6 and 7 of the specification.
\<close>

text \<open>
  Modelled from the spec: the error kinds \<^verbatim>\<open>InvalidGrant\<close> and
  \<^verbatim>\<open>UniqueConstraintError\<close> of section 7, which the missing views raise.
\<close>

datatype exchange_error = InvalidGrant | UniqueConstraintError

text \<open>
  Modelled from the spec: the repository of section 6 (the missing storage layer),
  holding the persisted grants, access tokens and refresh tokens.
\<close>

record repository =
  grants :: "Grant list"
  access_tokens :: "AccessToken list"
  refresh_tokens :: "RefreshToken list"

text \<open>
  Modelled from the spec: \<^verbatim>\<open>get_code_expiry\<close> of the missing \<^verbatim>\<open>provider/utils.py\<close>,
  which section 4.2 describes as \<^verbatim>\<open>now() + configured_delta\<close>; the delta is in
  microseconds.
\<close>

definition get_code_expiry :: "int \<Rightarrow> datetime \<Rightarrow> datetime" where
  "get_code_expiry EXPIRE_CODE_DELTA now = now\<lparr>wall := wall now + EXPIRE_CODE_DELTA\<rparr>"

text \<open>
  Modelled from the spec: \<^verbatim>\<open>issue\<close> of section 4.4 (missing view code). The code comes
  from the token generator, the expiry from the expiry policy, and the grant is
  persisted; the repository rejects a code it already holds.
\<close>

definition issue ::
  "int \<Rightarrow> datetime \<Rightarrow> string \<Rightarrow> repository \<Rightarrow> User \<Rightarrow> Client \<Rightarrow> string \<Rightarrow> int
     \<Rightarrow> exchange_error + (Grant \<times> repository)" where
  "issue EXPIRE_CODE_DELTA now long_token repo u c redirect sc =
     (let g = Grant_init long_token (get_code_expiry EXPIRE_CODE_DELTA now)
                (Some u) (Some c) None None (Some redirect) (Some sc)
      in if code g \<in> set (map code (grants repo)) then Inl UniqueConstraintError
         else Inr (g, repo\<lparr>grants := g # grants repo\<rparr>))"

text \<open>
  Modelled from the spec: \<^verbatim>\<open>exchange\<close> of section 4.4 (missing view code). It fails
  with \<^verbatim>\<open>InvalidGrant\<close> when the code is unknown or already exchanged (no such grant is
  stored), when the redirect URI differs, or when \<^verbatim>\<open>current_time >= expires\<close>. On
  success the grant is deleted and a paired access token and refresh token are created
  in the same step; the access token's expiry is the client's default policy at that
  moment. \<^verbatim>\<open>new_token\<close> and \<^verbatim>\<open>new_refresh\<close> are the strings the token generator
  hands out; the repository rejects a token string it already holds.
\<close>

definition exchange ::
  "datetime \<Rightarrow> (bool \<Rightarrow> datetime) \<Rightarrow> string \<Rightarrow> string \<Rightarrow> repository \<Rightarrow> string \<Rightarrow> Client
     \<Rightarrow> string \<Rightarrow> exchange_error + ((AccessToken \<times> RefreshToken) \<times> repository)" where
  "exchange now token_expiry new_token new_refresh repo cd cl redirect =
     (case find (\<lambda>g. code g = cd) (grants repo) of
        None \<Rightarrow> Inl InvalidGrant
      | Some g \<Rightarrow>
          if redirect_uri_g g \<noteq> redirect then Inl InvalidGrant
          else if (case expires_g g of
                     None \<Rightarrow> True
                   | Some e \<Rightarrow> utc_instant e \<le> utc_instant now) then Inl InvalidGrant
          else if new_token \<in> set (map token (access_tokens repo))
                  \<or> new_refresh \<in> set (map token_r (refresh_tokens repo))
               then Inl UniqueConstraintError
          else
            (let at = \<lparr> user_t = user_g g,
                        token = new_token,
                        client_t = Some cl,
                        expires = Some (get_default_token_expiry token_expiry cl),
                        scope = scope_g g,
                        logged_out = None,
                        device_id = None,
                        created = Some now,
                        modified = Some now \<rparr>;
                 rt = \<lparr> user_r = user_g g,
                        token_r = new_refresh,
                        access_token = at,
                        client_r = Some cl,
                        expired = False \<rparr>
             in Inr ((at, rt),
                     repo\<lparr> grants := filter (\<lambda>g. code g \<noteq> cd) (grants repo),
                           access_tokens := at # access_tokens repo,
                           refresh_tokens := rt # refresh_tokens repo \<rparr>)))"


section \<open>Properties of Client\<close>

text \<open>
  Claim C1, as the code has it: \<^verbatim>\<open>is_public\<close> is true if and only if the client HAS an
  owning user. The specification states the opposite (true iff no owning user is set);
  the property returns \<^verbatim>\<open>self.user != None\<close>.
\<close>

theorem is_public_iff_user_set: "is_public c \<longleftrightarrow> user c \<noteq> None"
  by (simp add: is_public_def)

text \<open>
  Claim C1 as stated fails on a client without an owning user: \<^verbatim>\<open>is_public\<close> is false
  there, although no user is set.
\<close>

theorem is_public_no_user_counterexample:
  "\<not> (is_public \<lparr> id_pk = PInt 1, user = None, name = PStr ''app'',
          url = PStr ''http://a'', redirect_uri = PStr ''http://a/cb'',
          client_id = PStr ''abc'', client_secret = PStr ''s3cr3t'', client_type = PInt 1 \<rparr>
        \<longleftrightarrow>
        user \<lparr> id_pk = PInt 1, user = None, name = PStr ''app'',
          url = PStr ''http://a'', redirect_uri = PStr ''http://a/cb'',
          client_id = PStr ''abc'', client_secret = PStr ''s3cr3t'', client_type = PInt 1 \<rparr>
          = None)"
  by (simp add: is_public_def)

text \<open>
  Claim C10: \<^verbatim>\<open>sandbox_client\<close> is true (a truthy value) if and only if the client has
  an owning user whose username is exactly \<^verbatim>\<open>oauth2-sandbox-user\<close>; a client with no
  owning user is never a sandbox client (the property is \<^verbatim>\<open>None\<close> there).
\<close>

theorem sandbox_client_iff:
  "(truthy (sandbox_client c)
      \<longleftrightarrow> (\<exists>u. user c = Some u \<and> username u = ''oauth2-sandbox-user''))
   \<and> \<not> truthy (sandbox_client (c\<lparr>user := None\<rparr>))"
  by (cases "user c") (simp_all add: sandbox_client_def)

text \<open>
  Claim C7: \<^verbatim>\<open>get_default_token_expiry\<close> returns what \<^verbatim>\<open>get_token_expiry\<close> returns for
  the argument \<^verbatim>\<open>public = (client_type == 1)\<close>; for an integer client type \<^verbatim>\<open>n\<close> the
  argument is true exactly when \<^verbatim>\<open>n = 1\<close>.
\<close>

theorem get_default_token_expiry_delegates:
  "get_default_token_expiry get_token_expiry c = get_token_expiry (py_eq_int (client_type c) 1)
   \<and> get_default_token_expiry get_token_expiry (c\<lparr>client_type := PInt n\<rparr>)
       = get_token_expiry (n = 1)"
  by (simp add: get_default_token_expiry_def)


section \<open>Serialising a client and reading it back\<close>

lemma deserialize_empty:
  "deserialize di dflt PNone = Inr None"
  "deserialize di dflt (PDict []) = Inr None"
  "deserialize di dflt (PStr []) = Inr None"
  by (simp_all add: deserialize_def)

text \<open>
  A client with an owning user survives the round trip, provided the two helpers of
  \<^verbatim>\<open>provider/utils.py\<close> succeed and the serialised user is not empty.
\<close>

lemma deserialize_serialize_with_user:
  assumes "user c = Some u" and "si u = Inr d" and "truthy d" and "di d = Inr u'"
  shows "\<exists>kvs c'. serialize si c = Inr kvs
           \<and> deserialize di dflt (PDict kvs) = Inr (Some c')
           \<and> client_id c' = client_id c
           \<and> redirect_uri c' = redirect_uri c
           \<and> client_type c' = client_type c
           \<and> user c' = Some u'"
  using assms
  by (simp add: serialize_def deserialize_def Client_fields_def dict_get_def kwarg_def
      Client_init_def)

text \<open>
  Claim C4 does not hold for a client without an owning user: \<^verbatim>\<open>serialize\<close> writes the
  empty string under \<^verbatim>\<open>user\<close>, \<^verbatim>\<open>deserialize\<close> leaves the falsy value as it is and
  passes it to the constructor, and assigning a string to the foreign key raises
  \<^verbatim>\<open>ValueError\<close>. No client is reconstructed.
\<close>

theorem deserialize_serialize_without_user:
  "\<exists>kvs. serialize si (c\<lparr>user := None\<rparr>) = Inr kvs
         \<and> deserialize di dflt (PDict kvs) = Inl ValueError"
  by (simp add: serialize_def deserialize_def Client_fields_def dict_get_def kwarg_def
      Client_init_def)


section \<open>Properties of Grant and AccessToken construction\<close>

text \<open>
  Claim C8: a Grant created without an explicit code and expiry takes its code from
  \<^verbatim>\<open>long_token()\<close> and its expiry from \<^verbatim>\<open>get_code_expiry()\<close>; values that are passed
  are kept.
\<close>

theorem Grant_init_defaults:
  "code (Grant_init long_token code_expiry u c None None r s) = long_token
   \<and> expires_g (Grant_init long_token code_expiry u c None None r s) = Some code_expiry
   \<and> code (Grant_init long_token code_expiry u c (Some cd) (Some e) r s) = cd
   \<and> expires_g (Grant_init long_token code_expiry u c (Some cd) (Some e) r s) = e"
  by (simp add: Grant_init_def)

text \<open>
  Claim C9: an AccessToken created without an explicit scope has the scope value of the
  first entry of \<^verbatim>\<open>SCOPES\<close>.
\<close>

theorem AccessToken_scope_default:
  "scope_default ((v, l) # rest) = Inr v
   \<and> (\<exists>t. AccessToken_init ((v, l) # rest) long_token u tk c e None = Inr t \<and> scope t = v)"
  by (simp add: AccessToken_init_def scope_default_def)

text \<open>
  Claim C5: when the expiry is unset, \<^verbatim>\<open>save\<close> sets it to the default token expiry of
  the owning client, computed by the expiry policy handed to \<^verbatim>\<open>save\<close> (the policy at
  save time; the constructor does not consult it); when the expiry is set, \<^verbatim>\<open>save\<close>
  leaves the token unchanged.
\<close>

theorem save_sets_expiry:
  "(expires t = None \<and> client_t t = Some c \<longrightarrow>
      save get_token_expiry t
        = Inr (t\<lparr>expires := Some (get_default_token_expiry get_token_expiry c)\<rparr>))
   \<and> (expires t = Some e \<longrightarrow> save get_token_expiry t = Inr t)
   \<and> (AccessToken_init SCOPES long_token u tk (Some c) None sc = Inr t \<longrightarrow>
      save get_token_expiry t
        = Inr (t\<lparr>expires := Some (get_token_expiry (py_eq_int (client_type c) 1))\<rparr>))"
  by (auto simp: save_def AccessToken_init_def get_default_token_expiry_def split: sum.splits)

text \<open>
  The statement at a token built by the constructor for a public client, saved under a
  policy that gives 3600 to public clients, and at a token whose expiry is already
  set.
\<close>

theorem save_sets_expiry_witness:
  "AccessToken_init [(2, ''read'')] ''t'' None None
     (Some \<lparr> id_pk = PInt 1, user = None, name = PStr ''app'',
          url = PStr ''http://a'', redirect_uri = PStr ''http://a/cb'',
          client_id = PStr ''abc'', client_secret = PStr ''s3cr3t'', client_type = PInt 1 \<rparr>) None None
   = Inr \<lparr> user_t = None, token = ''t'',
       client_t = Some \<lparr> id_pk = PInt 1, user = None, name = PStr ''app'',
          url = PStr ''http://a'', redirect_uri = PStr ''http://a/cb'',
          client_id = PStr ''abc'', client_secret = PStr ''s3cr3t'', client_type = PInt 1 \<rparr>,
       expires = None, scope = 2, logged_out = None,
       device_id = None, created = None, modified = None \<rparr>
   \<and> save (\<lambda>public. \<lparr> wall = (if public then 3600 else 7200), tzinfo = Some UTC \<rparr>)
     \<lparr> user_t = None, token = ''t'',
       client_t = Some \<lparr> id_pk = PInt 1, user = None, name = PStr ''app'',
          url = PStr ''http://a'', redirect_uri = PStr ''http://a/cb'',
          client_id = PStr ''abc'', client_secret = PStr ''s3cr3t'', client_type = PInt 1 \<rparr>,
       expires = None, scope = 2, logged_out = None,
       device_id = None, created = None, modified = None \<rparr>
   = Inr \<lparr> user_t = None, token = ''t'',
       client_t = Some \<lparr> id_pk = PInt 1, user = None, name = PStr ''app'',
          url = PStr ''http://a'', redirect_uri = PStr ''http://a/cb'',
          client_id = PStr ''abc'', client_secret = PStr ''s3cr3t'', client_type = PInt 1 \<rparr>,
       expires = Some \<lparr> wall = 3600, tzinfo = Some UTC \<rparr>, scope = 2, logged_out = None,
       device_id = None, created = None, modified = None \<rparr>
   \<and> save (\<lambda>public. \<lparr> wall = (if public then 3600 else 7200), tzinfo = Some UTC \<rparr>)
     \<lparr> user_t = None, token = ''t'',
       client_t = None,
       expires = Some \<lparr> wall = 5, tzinfo = None \<rparr>, scope = 2, logged_out = None,
       device_id = None, created = None, modified = None \<rparr>
   = Inr \<lparr> user_t = None, token = ''t'',
       client_t = None,
       expires = Some \<lparr> wall = 5, tzinfo = None \<rparr>, scope = 2, logged_out = None,
       device_id = None, created = None, modified = None \<rparr>"
proof -
  have built: "AccessToken_init [(2, ''read'')] ''t'' None None
     (Some \<lparr> id_pk = PInt 1, user = None, name = PStr ''app'',
          url = PStr ''http://a'', redirect_uri = PStr ''http://a/cb'',
          client_id = PStr ''abc'', client_secret = PStr ''s3cr3t'', client_type = PInt 1 \<rparr>) None None
   = Inr \<lparr> user_t = None, token = ''t'',
       client_t = Some \<lparr> id_pk = PInt 1, user = None, name = PStr ''app'',
          url = PStr ''http://a'', redirect_uri = PStr ''http://a/cb'',
          client_id = PStr ''abc'', client_secret = PStr ''s3cr3t'', client_type = PInt 1 \<rparr>,
       expires = None, scope = 2, logged_out = None,
       device_id = None, created = None, modified = None \<rparr>"
    by (simp add: AccessToken_init_def scope_default_def)
  have unset: "expires \<lparr> user_t = None, token = ''t'',
       client_t = Some \<lparr> id_pk = PInt 1, user = None, name = PStr ''app'',
          url = PStr ''http://a'', redirect_uri = PStr ''http://a/cb'',
          client_id = PStr ''abc'', client_secret = PStr ''s3cr3t'', client_type = PInt 1 \<rparr>,
       expires = None, scope = 2, logged_out = None,
       device_id = None, created = None, modified = None \<rparr> = None"
    and owner: "client_t \<lparr> user_t = None, token = ''t'',
       client_t = Some \<lparr> id_pk = PInt 1, user = None, name = PStr ''app'',
          url = PStr ''http://a'', redirect_uri = PStr ''http://a/cb'',
          client_id = PStr ''abc'', client_secret = PStr ''s3cr3t'', client_type = PInt 1 \<rparr>,
       expires = None, scope = 2, logged_out = None,
       device_id = None, created = None, modified = None \<rparr> = Some \<lparr> id_pk = PInt 1, user = None, name = PStr ''app'',
          url = PStr ''http://a'', redirect_uri = PStr ''http://a/cb'',
          client_id = PStr ''abc'', client_secret = PStr ''s3cr3t'', client_type = PInt 1 \<rparr>"
    and set: "expires \<lparr> user_t = None, token = ''t'',
       client_t = None,
       expires = Some \<lparr> wall = 5, tzinfo = None \<rparr>, scope = 2, logged_out = None,
       device_id = None, created = None, modified = None \<rparr> = Some \<lparr> wall = 5, tzinfo = None \<rparr>"
    by simp_all
  show ?thesis
    using built unset owner set
      save_sets_expiry [of
        "\<lparr> user_t = None, token = ''t'',
       client_t = Some \<lparr> id_pk = PInt 1, user = None, name = PStr ''app'',
          url = PStr ''http://a'', redirect_uri = PStr ''http://a/cb'',
          client_id = PStr ''abc'', client_secret = PStr ''s3cr3t'', client_type = PInt 1 \<rparr>,
       expires = None, scope = 2, logged_out = None,
       device_id = None, created = None, modified = None \<rparr>"
        "\<lparr> id_pk = PInt 1, user = None, name = PStr ''app'',
          url = PStr ''http://a'', redirect_uri = PStr ''http://a/cb'',
          client_id = PStr ''abc'', client_secret = PStr ''s3cr3t'', client_type = PInt 1 \<rparr>"
        "(\<lambda>public. \<lparr> wall = (if public then 3600 else 7200), tzinfo = Some UTC \<rparr>)" _ "[(2, ''read'')]" "''t''" None None None]
      save_sets_expiry [of
        "\<lparr> user_t = None, token = ''t'',
       client_t = None,
       expires = Some \<lparr> wall = 5, tzinfo = None \<rparr>, scope = 2, logged_out = None,
       device_id = None, created = None, modified = None \<rparr>" _
        "(\<lambda>public. \<lparr> wall = (if public then 3600 else 7200), tzinfo = Some UTC \<rparr>)"
        "\<lparr> wall = 5, tzinfo = None \<rparr>"]
    by (simp add: get_default_token_expiry_def)
qed


section \<open>Seconds until expiry\<close>

text \<open>Normalising loses nothing: the fields of a \<^verbatim>\<open>timedelta\<close> add up to its length.\<close>

lemma total_microseconds_timedelta_us: "total_microseconds (timedelta_us t) = t"
proof -
  have low: "t mod 86400000000 div 1000000 * 1000000 + t mod 1000000 = t mod 86400000000"
  proof -
    have "t mod 86400000000 mod 1000000 = t mod 1000000"
      by (rule mod_mod_cancel) simp
    then show ?thesis
      using div_mult_mod_eq [of "t mod 86400000000" 1000000] by simp
  qed
  have "total_microseconds (timedelta_us t) =
          t div 86400000000 * 86400000000
            + (t mod 86400000000 div 1000000 * 1000000 + t mod 1000000)"
    unfolding total_microseconds_def timedelta_us_def
    by (simp add: algebra_simps)
  also have "\<dots> = t div 86400000000 * 86400000000 + t mod 86400000000"
    by (simp only: low)
  also have "\<dots> = t"
    by (rule div_mult_mod_eq)
  finally show ?thesis .
qed

text \<open>
  \<^verbatim>\<open>days*86400 + seconds\<close> drops the (never negative) microseconds field, which rounds
  the length down.
\<close>

lemma timedelta_us_whole_seconds:
  "days (timedelta_us t) * 86400 + seconds (timedelta_us t) = t div 1000000"
proof -
  have "t div 1000000 = total_microseconds (timedelta_us t) div 1000000"
    by (simp add: total_microseconds_timedelta_us)
  also have "\<dots> = days (timedelta_us t) * 86400 + seconds (timedelta_us t)"
    unfolding total_microseconds_def timedelta_us_def
    by simp
  finally show ?thesis by simp
qed

lemma dt_sub_Inr_timedelta_us: "dt_sub a b = Inr td \<Longrightarrow> \<exists>t. td = timedelta_us t"
  unfolding dt_sub_def Let_def
  by (auto split: if_splits option.splits)

lemma dt_sub_Inr_same_awareness: "dt_sub a b = Inr td \<Longrightarrow> is_aware a = is_aware b"
  unfolding dt_sub_def Let_def is_aware_def utcoffset_def
  by (cases "tzinfo a"; cases "tzinfo b") (auto split: if_splits)

lemma align_awareness_same:
  "is_aware e = is_aware r \<Longrightarrow> align_awareness r (Some e) = Inr (Some e, r)"
  unfolding align_awareness_def is_naive_def is_aware_def
  by auto

lemma get_expire_delta_default:
  "get_expire_delta timezone now tok None = get_expire_delta timezone now tok (Some now)"
  by (simp add: get_expire_delta_def)

lemma get_expire_delta_sub:
  assumes "expires tok = Some e"
    and "(if timezone then align_awareness r (Some e) else Inr (Some e, r)) = Inr (Some e', r')"
    and "dt_sub e' r' = Inr (timedelta_us t)"
  shows "get_expire_delta timezone now tok (Some r) = Inr (t div 1000000)"
  using assms
  by (cases timezone) (simp_all add: get_expire_delta_def timedelta_us_whole_seconds)

text \<open>
  Claim C2, as the code has it: for a token whose expiry is set and a reference time
  (the argument, or \<^verbatim>\<open>now()\<close> when it is omitted) that Python can subtract from it
  (both naive or both aware), \<^verbatim>\<open>get_expire_delta\<close> returns the difference expires minus
  reference in whole seconds rounded DOWN (floor, toward negative infinity), not
  truncated toward zero: 10 for a token expiring in 10.7 seconds, -2 for one that
  expired 1.5 seconds ago.
\<close>

theorem get_expire_delta_floor:
  assumes "expires tok = Some e"
    and "dt_sub e (case reference of None \<Rightarrow> now | Some r \<Rightarrow> r) = Inr td"
  shows "get_expire_delta timezone now tok reference
           = Inr (total_microseconds td div 1000000)"
proof -
  define r where "r = (case reference of None \<Rightarrow> now | Some r \<Rightarrow> r)"
  have sub: "dt_sub e r = Inr td"
    using assms(2) by (simp add: r_def)
  then obtain t where td: "td = timedelta_us t"
    using dt_sub_Inr_timedelta_us by blast
  have "align_awareness r (Some e) = Inr (Some e, r)"
    using sub by (intro align_awareness_same dt_sub_Inr_same_awareness)
  then have "(if timezone then align_awareness r (Some e) else Inr (Some e, r))
               = Inr (Some e, r)"
    by simp
  from get_expire_delta_sub [OF assms(1) this] sub td
  have "get_expire_delta timezone now tok (Some r)
          = Inr (total_microseconds td div 1000000)"
    by (simp add: total_microseconds_timedelta_us)
  moreover have "get_expire_delta timezone now tok reference
                   = get_expire_delta timezone now tok (Some r)"
    by (cases reference) (simp_all add: r_def get_expire_delta_default)
  ultimately show ?thesis by simp
qed

text \<open>A token that expires 10.7 seconds after the reference time: the result is 10.\<close>

theorem get_expire_delta_floor_witness:
  "get_expire_delta True \<lparr> wall = 7, tzinfo = None \<rparr>
     \<lparr> user_t = None, token = ''t'', client_t = None,
       expires = Some \<lparr> wall = 10700000, tzinfo = None \<rparr>, scope = 2, logged_out = None,
       device_id = None, created = None, modified = None \<rparr>
     (Some \<lparr> wall = 0, tzinfo = None \<rparr>) = Inr 10"
proof -
  have sub: "dt_sub \<lparr> wall = 10700000, tzinfo = None \<rparr>
               (case Some \<lparr> wall = 0, tzinfo = None \<rparr> of
                  None \<Rightarrow> \<lparr> wall = 7, tzinfo = None \<rparr> | Some r \<Rightarrow> r)
               = Inr (timedelta_us 10700000)"
    by (simp add: dt_sub_def)
  show ?thesis
    using get_expire_delta_floor [where timezone = True, OF _ sub]
    by (simp add: total_microseconds_timedelta_us)
qed

text \<open>
  Claim C2 as stated fails on a token that expired 1.5 seconds before the reference
  time: truncation toward zero would give -1, the code returns -2.
\<close>

theorem get_expire_delta_truncation_counterexample:
  "get_expire_delta True \<lparr> wall = 0, tzinfo = None \<rparr>
     \<lparr> user_t = None, token = ''t'', client_t = None,
       expires = Some \<lparr> wall = 0, tzinfo = None \<rparr>, scope = 2, logged_out = None,
       device_id = None, created = None, modified = None \<rparr>
     (Some \<lparr> wall = 1500000, tzinfo = None \<rparr>) = Inr (- 2)
   \<and> get_expire_delta True \<lparr> wall = 0, tzinfo = None \<rparr>
     \<lparr> user_t = None, token = ''t'', client_t = None,
       expires = Some \<lparr> wall = 0, tzinfo = None \<rparr>, scope = 2, logged_out = None,
       device_id = None, created = None, modified = None \<rparr>
     (Some \<lparr> wall = 1500000, tzinfo = None \<rparr>) \<noteq> Inr (- 1)"
  by (simp add: get_expire_delta_def align_awareness_def is_aware_def is_naive_def
      utcoffset_def dt_sub_def timedelta_us_def)

lemma utc_instant_mixed_left:
  assumes "tzinfo e = None" and "tzinfo r = Some z"
  shows "dt_sub (e\<lparr>tzinfo := Some UTC\<rparr>) r = Inr (timedelta_us (utc_instant e - utc_instant r))"
  using assms unfolding dt_sub_def utc_instant_def utcoffset_def Let_def
  by (cases z) (simp_all add: algebra_simps)

lemma utc_instant_mixed_right:
  assumes "tzinfo e = Some z" and "tzinfo r = None"
  shows "dt_sub e (r\<lparr>tzinfo := Some UTC\<rparr>) = Inr (timedelta_us (utc_instant e - utc_instant r))"
  using assms unfolding dt_sub_def utc_instant_def utcoffset_def Let_def
  by (cases z) (simp_all add: algebra_simps)

lemma dt_sub_normalize_utc:
  "dt_sub (normalize_utc e) (normalize_utc r) = Inr (timedelta_us (utc_instant e - utc_instant r))"
  unfolding dt_sub_def normalize_utc_def Let_def
  by simp

lemma align_awareness_normalize_utc:
  "align_awareness (normalize_utc r) (Some (normalize_utc e))
     = Inr (Some (normalize_utc e), normalize_utc r)"
  by (simp add: align_awareness_def normalize_utc_def is_aware_def is_naive_def utcoffset_def)

text \<open>
  Claim C3: with \<^verbatim>\<open>django.utils.timezone\<close> imported, a call with one aware and one
  naive timestamp (aware reference and naive expiry, or the other way round) does not
  raise; the naive value counts as UTC, so the result is the whole seconds between the
  two UTC instants, and it equals the result of the call on both timestamps normalised
  to UTC.
\<close>

theorem get_expire_delta_mixed:
  assumes "expires tok = Some e" and "is_aware r \<noteq> is_aware e"
  shows "get_expire_delta True now tok (Some r)
           = Inr ((utc_instant e - utc_instant r) div 1000000)
         \<and> get_expire_delta True now tok (Some r)
           = get_expire_delta True now (tok\<lparr>expires := Some (normalize_utc e)\<rparr>)
               (Some (normalize_utc r))"
proof -
  have norm: "get_expire_delta True now (tok\<lparr>expires := Some (normalize_utc e)\<rparr>)
                (Some (normalize_utc r)) = Inr ((utc_instant e - utc_instant r) div 1000000)"
    by (rule get_expire_delta_sub [where e = "normalize_utc e" and e' = "normalize_utc e"
          and r' = "normalize_utc r"])
      (simp_all add: align_awareness_normalize_utc dt_sub_normalize_utc)
  have mixed: "get_expire_delta True now tok (Some r)
                 = Inr ((utc_instant e - utc_instant r) div 1000000)"
  proof (cases "tzinfo r")
    case None
    with assms(2) obtain z where z: "tzinfo e = Some z"
      by (auto simp: is_aware_def utcoffset_def)
    have "align_awareness r (Some e) = Inr (Some e, r\<lparr>tzinfo := Some UTC\<rparr>)"
      using None z
      by (simp add: align_awareness_def is_aware_def is_naive_def utcoffset_def make_aware_def)
    then show ?thesis
      using utc_instant_mixed_right [OF z None]
      by (intro get_expire_delta_sub [OF assms(1)]) simp_all
  next
    case (Some z)
    with assms(2) have e: "tzinfo e = None"
      by (auto simp: is_aware_def utcoffset_def)
    have "align_awareness r (Some e) = Inr (Some (e\<lparr>tzinfo := Some UTC\<rparr>), r)"
      using Some e
      by (simp add: align_awareness_def is_aware_def is_naive_def utcoffset_def make_aware_def)
    then show ?thesis
      using utc_instant_mixed_left [OF e Some]
      by (intro get_expire_delta_sub [OF assms(1)]) simp_all
  qed
  from mixed norm show ?thesis by simp
qed

text \<open>
  A naive expiry 10.7 seconds after midnight against a reference of 01:00 in a zone one
  hour ahead of UTC (midnight UTC) gives 10; an expiry of 01:00 in that zone against a
  naive reference of 1.5 seconds after midnight gives -2.
\<close>

theorem get_expire_delta_mixed_witness:
  "get_expire_delta True \<lparr> wall = 0, tzinfo = Some UTC \<rparr>
     \<lparr> user_t = None, token = ''t'', client_t = None,
       expires = Some \<lparr> wall = 10700000, tzinfo = None \<rparr>, scope = 2, logged_out = None,
       device_id = None, created = None, modified = None \<rparr>
     (Some \<lparr> wall = 3600000000, tzinfo = Some (Zone 1 3600000000) \<rparr>) = Inr 10
   \<and> get_expire_delta True \<lparr> wall = 0, tzinfo = Some UTC \<rparr>
     \<lparr> user_t = None, token = ''t'', client_t = None,
       expires = Some \<lparr> wall = 3600000000, tzinfo = Some (Zone 1 3600000000) \<rparr>,
       scope = 2, logged_out = None, device_id = None, created = None, modified = None \<rparr>
     (Some \<lparr> wall = 1500000, tzinfo = None \<rparr>) = Inr (- 2)"
proof -
  have a: "is_aware \<lparr> wall = 3600000000, tzinfo = Some (Zone 1 3600000000) \<rparr>
             \<noteq> is_aware \<lparr> wall = 10700000, tzinfo = None \<rparr>"
    by (simp add: is_aware_def utcoffset_def)
  have b: "is_aware \<lparr> wall = 1500000, tzinfo = None \<rparr>
             \<noteq> is_aware \<lparr> wall = 3600000000, tzinfo = Some (Zone 1 3600000000) \<rparr>"
    by (simp add: is_aware_def utcoffset_def)
  show ?thesis
    using get_expire_delta_mixed [OF _ a, where now = "\<lparr> wall = 0, tzinfo = Some UTC \<rparr>"
        and tok = "\<lparr> user_t = None, token = ''t'', client_t = None,
          expires = Some \<lparr> wall = 10700000, tzinfo = None \<rparr>, scope = 2, logged_out = None,
          device_id = None, created = None, modified = None \<rparr>"]
      get_expire_delta_mixed [OF _ b, where now = "\<lparr> wall = 0, tzinfo = Some UTC \<rparr>"
        and tok = "\<lparr> user_t = None, token = ''t'', client_t = None,
          expires = Some \<lparr> wall = 3600000000, tzinfo = Some (Zone 1 3600000000) \<rparr>,
          scope = 2, logged_out = None, device_id = None, created = None, modified = None \<rparr>"]
    by (simp add: utc_instant_def)
qed

text \<open>Without \<^verbatim>\<open>django.utils.timezone\<close> the same call raises \<^verbatim>\<open>TypeError\<close>.\<close>

lemma get_expire_delta_mixed_no_timezone:
  assumes "expires tok = Some e" and "is_aware r \<noteq> is_aware e"
  shows "get_expire_delta False now tok (Some r) = Inl TypeError"
  using assms
  by (cases "tzinfo e"; cases "tzinfo r")
    (simp_all add: get_expire_delta_def dt_sub_def is_aware_def utcoffset_def)


section \<open>Issuing and exchanging a grant\<close>

lemma find_after_delete: "find (\<lambda>g. code g = cd) (filter (\<lambda>g. code g \<noteq> cd) gs) = None"
  by (simp add: find_None_iff)

lemma utc_instant_get_code_expiry:
  "utc_instant (get_code_expiry ttl now) = utc_instant now + ttl"
  by (simp add: utc_instant_def get_code_expiry_def)

lemma exchange_after_delete:
  "grants repo = filter (\<lambda>g. code g \<noteq> cd) gs
     \<Longrightarrow> exchange now pol tk rtk repo cd cl redirect = Inl InvalidGrant"
  by (simp add: exchange_def find_after_delete)

text \<open>
  Claim C6: for every user, client, redirect URI and scope, when the generated code and
  token strings are not yet in the repository and the exchange happens before the
  grant expires, issuing a grant succeeds, exchanging its code with the same redirect
  URI succeeds, and every later exchange of that code fails with \<^verbatim>\<open>InvalidGrant\<close>.
\<close>

theorem issue_then_exchange_once:
  assumes fresh: "long_token \<notin> set (map code (grants repo))"
    and tok: "new_token \<notin> set (map token (access_tokens repo))"
    and rtok: "new_refresh \<notin> set (map token_r (refresh_tokens repo))"
    and time: "utc_instant t1 < utc_instant t0 + ttl"
  shows "\<exists>g repo1 at rt repo2.
           issue ttl t0 long_token repo u c redirect sc = Inr (g, repo1)
         \<and> exchange t1 pol new_token new_refresh repo1 (code g) c redirect
             = Inr ((at, rt), repo2)
         \<and> (\<forall>t2 tok2 rtok2.
               exchange t2 pol tok2 rtok2 repo2 (code g) c redirect = Inl InvalidGrant)"
proof -
  define g where "g = Grant_init long_token (get_code_expiry ttl t0)
                        (Some u) (Some c) None None (Some redirect) (Some sc)"
  define repo1 where "repo1 = repo\<lparr>grants := g # grants repo\<rparr>"
  have cg: "code g = long_token" and rg: "redirect_uri_g g = redirect"
    and eg: "expires_g g = Some (get_code_expiry ttl t0)"
    by (simp_all add: g_def Grant_init_def)
  have iss: "issue ttl t0 long_token repo u c redirect sc = Inr (g, repo1)"
    using fresh cg unfolding issue_def Let_def g_def [symmetric] repo1_def
    by simp
  define at where "at = \<lparr> user_t = user_g g, token = new_token, client_t = Some c,
      expires = Some (get_default_token_expiry pol c), scope = scope_g g, logged_out = None,
      device_id = None, created = Some t1, modified = Some t1 \<rparr>"
  define rt where "rt = \<lparr> user_r = user_g g, token_r = new_refresh, access_token = at,
      client_r = Some c, expired = False \<rparr>"
  define repo2 where "repo2 = repo1\<lparr> grants := filter (\<lambda>g. code g \<noteq> long_token) (grants repo1),
      access_tokens := at # access_tokens repo1,
      refresh_tokens := rt # refresh_tokens repo1 \<rparr>"
  have found: "find (\<lambda>g. code g = long_token) (grants repo1) = Some g"
    by (simp add: repo1_def cg)
  have live: "\<not> utc_instant (get_code_expiry ttl t0) \<le> utc_instant t1"
    using time by (simp add: utc_instant_get_code_expiry)
  have ex1: "exchange t1 pol new_token new_refresh repo1 long_token c redirect
               = Inr ((at, rt), repo2)"
    unfolding exchange_def Let_def found
    using rg eg live tok rtok
    by (simp add: repo1_def repo2_def at_def rt_def)
  have "grants repo2 = filter (\<lambda>g. code g \<noteq> long_token) (grants repo1)"
    by (simp add: repo2_def)
  then have ex2: "\<forall>t2 tok2 rtok2.
      exchange t2 pol tok2 rtok2 repo2 long_token c redirect = Inl InvalidGrant"
    by (simp add: exchange_after_delete)
  from iss ex1 ex2 show ?thesis
    unfolding cg [symmetric] by blast
qed

text \<open>
  The scenario of the specification: a grant issued at \<^verbatim>\<open>t0\<close> with a lifetime of 60
  seconds into an empty repository is exchanged at \<^verbatim>\<open>t0 + 10s\<close>; the replay fails.
\<close>

theorem issue_then_exchange_once_witness:
  "\<exists>g repo1 at rt repo2.
     issue 60000000 \<lparr> wall = 0, tzinfo = Some UTC \<rparr> ''c0de''
       \<lparr> grants = [], access_tokens = [], refresh_tokens = [] \<rparr>
       \<lparr> username = ''alice'' \<rparr>
       \<lparr> id_pk = PInt 1, user = None, name = PStr ''app'',
         url = PStr ''http://a'', redirect_uri = PStr ''http://a/cb'',
         client_id = PStr ''abc'', client_secret = PStr ''s3cr3t'', client_type = PInt 1 \<rparr>
       ''http://a/cb'' 2 = Inr (g, repo1)
   \<and> exchange \<lparr> wall = 10000000, tzinfo = Some UTC \<rparr>
       (\<lambda>public. \<lparr> wall = 3610000000, tzinfo = Some UTC \<rparr>) ''tok'' ''rtok'' repo1 (code g)
       \<lparr> id_pk = PInt 1, user = None, name = PStr ''app'',
         url = PStr ''http://a'', redirect_uri = PStr ''http://a/cb'',
         client_id = PStr ''abc'', client_secret = PStr ''s3cr3t'', client_type = PInt 1 \<rparr>
       ''http://a/cb'' = Inr ((at, rt), repo2)
   \<and> (\<forall>t2 tok2 rtok2.
         exchange t2 (\<lambda>public. \<lparr> wall = 3610000000, tzinfo = Some UTC \<rparr>) tok2 rtok2 repo2
           (code g)
           \<lparr> id_pk = PInt 1, user = None, name = PStr ''app'',
             url = PStr ''http://a'', redirect_uri = PStr ''http://a/cb'',
             client_id = PStr ''abc'', client_secret = PStr ''s3cr3t'',
             client_type = PInt 1 \<rparr>
           ''http://a/cb'' = Inl InvalidGrant)"
  by (rule issue_then_exchange_once) (simp_all add: utc_instant_def)

end
